theory Spec2Isabelle
  imports Complex_Main "HOL-Library.AList"
begin

section \<open>Data model (shared/schema.ts)\<close>

text \<open>
  The schema declares every monetary column as \<open>numeric\<close>; the handlers convert the
  stored values with \<open>Number(...)\<close> before computing and back with \<open>toString()\<close>
  afterwards. A stored value is carried as a rational number. The handlers compute in
  JavaScript numbers, which may be \<open>NaN\<close>: a \<open>number\<close> is a rational or \<open>None\<close> for
  \<open>NaN\<close>, and \<open>NaN\<close> spreads through every operation. The rounding of binary floating
  point is not modelled; the concrete runs evaluated below use values on which the
  operations are exact in doubles too, and no statement rests on the result of an
  inexact operation. Identifiers (\<open>serial\<close>, \<open>INTEGER PRIMARY KEY\<close>) are integers, dates
  are the \<open>YYYY-MM-DD\<close> strings of the source.

  Each record gives the content of a row, under the property names of the schema's
  types. The \<open>profit\<close> of a transaction is the number its string denotes (\<open>None\<close> for the
  string \<open>NaN\<close>).
\<close>

type_synonym number = "rat option"

definition js_plus :: "number \<Rightarrow> number \<Rightarrow> number" where
  "js_plus x y = (case (x, y) of (Some a, Some b) \<Rightarrow> Some (a + b) | _ \<Rightarrow> None)"

definition js_minus :: "number \<Rightarrow> number \<Rightarrow> number" where
  "js_minus x y = (case (x, y) of (Some a, Some b) \<Rightarrow> Some (a - b) | _ \<Rightarrow> None)"

definition js_times :: "number \<Rightarrow> number \<Rightarrow> number" where
  "js_times x y = (case (x, y) of (Some a, Some b) \<Rightarrow> Some (a * b) | _ \<Rightarrow> None)"

text \<open>Division, used by the buy route with a positive divisor only.\<close>

definition js_divide :: "number \<Rightarrow> number \<Rightarrow> number" where
  "js_divide x y = (case (x, y) of (Some a, Some b) \<Rightarrow> Some (a / b) | _ \<Rightarrow> None)"

record Currency =
  cur_id :: int
  code :: string
  cur_name :: string
  country :: string
  currentRate :: rat

record InsertInventory =
  currencyId :: int
  amount :: rat
  avgBuyPrice :: rat

record Inventory = InsertInventory +
  inv_id :: int

datatype tx_type = BUY | SELL

record InsertTransaction =
  tx_currencyId :: int
  tx_type :: tx_type
  tx_amount :: rat
  tx_rate :: rat
  tx_total :: rat
  tx_notes :: "string option"
  tx_profit :: "rat option"

record Transaction = InsertTransaction +
  tx_id :: int
  tx_timestamp :: string

record InsertDailyStats =
  date :: string
  profit :: rat
  transactionCount :: int

record DailyStats = InsertDailyStats +
  stat_id :: int

section \<open>SqliteStorage (server/storage.ts, tables of server/database.ts)\<close>

text \<open>
  The four tables the accounting core uses, each a list of rows in rowid order, and the
  \<open>AUTOINCREMENT\<close> sequence of each table (the largest rowid the table ever held).
\<close>

record store =
  currencies :: "Currency list"
  inventory :: "Inventory list"
  transactions :: "Transaction list"
  daily_stats :: "DailyStats list"
  seq_inventory :: int
  seq_transactions :: int
  seq_daily_stats :: int

text \<open>\<open>lastInsertRowid\<close> of an \<open>AUTOINCREMENT\<close> table: one more than the largest rowid
  ever used.\<close>

definition lastInsertRowid :: "int \<Rightarrow> int list \<Rightarrow> int" where
  "lastInsertRowid seq ids = fold max ids seq + 1"

definition getCurrency :: "store \<Rightarrow> int \<Rightarrow> Currency option" where
  "getCurrency s cid = find (\<lambda>c. cur_id c = cid) (currencies s)"

definition getInventoryItem :: "store \<Rightarrow> int \<Rightarrow> Inventory option" where
  "getInventoryItem s i = find (\<lambda>r. inv_id r = i) (inventory s)"

definition getInventoryByCurrencyId :: "store \<Rightarrow> int \<Rightarrow> Inventory option" where
  "getInventoryByCurrencyId s cid = find (\<lambda>r. currencyId r = cid) (inventory s)"

definition createInventoryItem :: "InsertInventory \<Rightarrow> store \<Rightarrow> Inventory \<times> store" where
  "createInventoryItem item s =
     (let i = lastInsertRowid (seq_inventory s) (map inv_id (inventory s));
          row = \<lparr>currencyId = currencyId item, amount = amount item,
                 avgBuyPrice = avgBuyPrice item, inv_id = i\<rparr>
      in (row, s\<lparr>inventory := inventory s @ [row], seq_inventory := i\<rparr>))"

text \<open>\<open>UPDATE inventory SET amount = ?, avg_buy_price = ? WHERE id = ?\<close>, called with
  two JavaScript numbers. \<open>NaN\<close> is bound as \<open>NULL\<close> and both columns are \<open>NOT NULL\<close>:
  when a row has the id and one of the numbers is \<open>NaN\<close>, the statement throws
  (\<open>None\<close>) and writes nothing. The source returns \<open>getInventoryItem(id)\<close> of the new
  state; no caller reads it.\<close>

definition updateInventoryItem :: "int \<Rightarrow> number \<Rightarrow> number \<Rightarrow> store \<Rightarrow> store option" where
  "updateInventoryItem i amt avg s =
     (if \<exists>r \<in> set (inventory s). inv_id r = i
      then (case (amt, avg) of
              (Some a, Some p) \<Rightarrow>
                Some (s\<lparr>inventory :=
                  map (\<lambda>r. if inv_id r = i then r\<lparr>amount := a, avgBuyPrice := p\<rparr> else r)
                    (inventory s)\<rparr>)
            | _ \<Rightarrow> None)
      else Some s)"

text \<open>\<open>INSERT INTO transactions\<close>: the row takes the next rowid and the current
  timestamp (its date is \<open>now\<close>); the call returns \<open>{id, ...transaction}\<close>. This backend
  does not touch \<open>daily_stats\<close> here.\<close>

definition transaction_row :: "int \<Rightarrow> string \<Rightarrow> InsertTransaction \<Rightarrow> Transaction" where
  "transaction_row i now t =
     \<lparr>tx_currencyId = tx_currencyId t, tx_type = tx_type t, tx_amount = tx_amount t,
      tx_rate = tx_rate t, tx_total = tx_total t, tx_notes = tx_notes t,
      tx_profit = tx_profit t, tx_id = i, tx_timestamp = now\<rparr>"

definition createTransaction ::
  "string \<Rightarrow> InsertTransaction \<Rightarrow> store \<Rightarrow> (int \<times> InsertTransaction) \<times> store" where
  "createTransaction now t s =
     (let i = lastInsertRowid (seq_transactions s) (map tx_id (transactions s))
      in ((i, t),
          s\<lparr>transactions := transactions s @ [transaction_row i now t],
            seq_transactions := i\<rparr>))"

definition getDailyStats :: "store \<Rightarrow> string \<Rightarrow> DailyStats option" where
  "getDailyStats s d = find (\<lambda>r. date r = d) (daily_stats s)"

text \<open>\<open>INSERT ... ON CONFLICT(date) DO UPDATE SET profit = excluded.profit,
  transaction_count = excluded.transaction_count\<close>, then \<open>getDailyStats(stats.date)\<close>.
  The statement draws a rowid from the sequence on the update path as well.\<close>

definition createOrUpdateDailyStats ::
  "InsertDailyStats \<Rightarrow> store \<Rightarrow> DailyStats option \<times> store" where
  "createOrUpdateDailyStats stats s =
     (let i = lastInsertRowid (seq_daily_stats s) (map stat_id (daily_stats s));
          s' =
        (if \<exists>r \<in> set (daily_stats s). date r = date stats
         then s\<lparr>daily_stats :=
                map (\<lambda>r. if date r = date stats
                          then r\<lparr>profit := profit stats,
                                 transactionCount := transactionCount stats\<rparr>
                          else r)
                  (daily_stats s),
                seq_daily_stats := i\<rparr>
         else s\<lparr>daily_stats := daily_stats s @
                    [\<lparr>date = date stats, profit = profit stats,
                      transactionCount = transactionCount stats, stat_id = i\<rparr>],
                  seq_daily_stats := i\<rparr>)
      in (getDailyStats s' (date stats), s'))"

text \<open>The three statements of \<open>resetInventory\<close> run inside one
  \<open>database.db.transaction\<close>, so they take effect together.\<close>

definition resetInventory :: "store \<Rightarrow> store" where
  "resetInventory s =
     s\<lparr>transactions := [],
       inventory := map (\<lambda>r. r\<lparr>amount := 0\<rparr>) (inventory s),
       daily_stats := map (\<lambda>r. r\<lparr>profit := 0, transactionCount := 0\<rparr>) (daily_stats s)\<rparr>"

section \<open>Transaction processor (the buy and sell routes)\<close>

text \<open>
  A request body: \<open>currencyId\<close>, and the fields \<open>amount\<close>, \<open>rate\<close>, \<open>total\<close> and \<open>notes\<close>,
  each of which may be absent (\<open>None\<close>). A present numeric field holds a number or a
  numeric string; both convert to the same value.
\<close>

record request =
  req_currencyId :: int
  req_amount :: "rat option"
  req_rate :: "rat option"
  req_total :: "rat option"
  req_notes :: "string option"

text \<open>The outcomes of a handler: 201 with the created transaction, 400 from the schema
  (\<open>ZodError\<close>), 404, 400 with the available amount, and 500 from the \<open>catch\<close> branch.\<close>

datatype response =
    Created int InsertTransaction
  | ValidationError
  | NotFound
  | InsufficientStock rat
  | StorageFailure

text \<open>Every \<open>await storage. ...\<close> of a handler may throw; the handler's \<open>catch\<close> answers
  500 and what was written before stays written. \<open>fl c\<close> says that the call \<open>c\<close> throws.\<close>

datatype storage_call =
    GetCurrency
  | GetInventoryByCurrencyId
  | CreateInventoryItem
  | UpdateInventoryItem
  | CreateTransaction
  | GetDailyStats
  | CreateOrUpdateDailyStats

type_synonym faults = "storage_call \<Rightarrow> bool"

definition no_faults :: faults where
  "no_faults = (\<lambda>c. False)"

text \<open>
  SqliteStorage hands a row of \<open>SELECT *\<close> to the route as the driver returns it: an
  object whose keys are the column names (\<open>id\<close>, \<open>currency_id\<close>, \<open>amount\<close>,
  \<open>avg_buy_price\<close>, \<open>last_updated\<close>; for a stat \<open>id\<close>, \<open>date\<close>, \<open>profit\<close>,
  \<open>transaction_count\<close>). The routes read the properties \<open>id\<close>, \<open>amount\<close> and
  \<open>avgBuyPrice\<close> of an inventory object and \<open>profit\<close> and \<open>transactionCount\<close> of a
  stat object. A property that is no key of the object reads as \<open>undefined\<close>, and
  \<open>Number(undefined)\<close> and \<open>undefined + 1\<close> are \<open>NaN\<close>: such a property is \<open>None\<close>.
  The object \<open>createInventoryItem\<close> returns is \<open>{id, ...item}\<close>, with the keys of
  its argument, \<open>avgBuyPrice\<close> among them.
\<close>

record inventory_object =
  obj_id :: int
  obj_amount :: rat
  obj_avgBuyPrice :: number

definition row_object :: "Inventory \<Rightarrow> inventory_object" where
  "row_object r = \<lparr>obj_id = inv_id r, obj_amount = amount r, obj_avgBuyPrice = None\<rparr>"

definition created_object :: "Inventory \<Rightarrow> inventory_object" where
  "created_object r =
     \<lparr>obj_id = inv_id r, obj_amount = amount r, obj_avgBuyPrice = Some (avgBuyPrice r)\<rparr>"

record stats_object =
  sobj_profit :: rat
  sobj_transactionCount :: "int option"

definition stats_row_object :: "DailyStats \<Rightarrow> stats_object" where
  "stats_row_object r = \<lparr>sobj_profit = profit r, sobj_transactionCount = None\<rparr>"

text \<open>\<open>insertTransactionSchema.parse\<close>: \<open>amount\<close>, \<open>rate\<close> and \<open>total\<close> are required
  (\<open>notNull\<close> numeric columns), \<open>notes\<close> and \<open>profit\<close> are optional; the routes always
  pass a profit string. Nothing in the schema constrains the sign of a value.\<close>

definition insertTransactionSchema_parse ::
  "request \<Rightarrow> tx_type \<Rightarrow> number \<Rightarrow> InsertTransaction option" where
  "insertTransactionSchema_parse req ty p =
     (case (req_amount req, req_rate req, req_total req) of
        (Some a, Some r, Some t) \<Rightarrow>
          Some \<lparr>tx_currencyId = req_currencyId req, tx_type = ty, tx_amount = a,
                tx_rate = r, tx_total = t, tx_notes = req_notes req, tx_profit = p\<rparr>
      | _ \<Rightarrow> None)"

text \<open>\<open>POST /api/transactions/buy\<close>. After a successful parse \<open>Number(amount)\<close> and
  \<open>Number(rate)\<close> are the parsed values. The inventory object is the row found for the
  currency, or the object \<open>createInventoryItem\<close> returns. With a found row the current
  total value is \<open>NaN\<close>, and so is the new average unless the new total amount is not
  positive.\<close>

definition post_transactions_buy ::
  "faults \<Rightarrow> string \<Rightarrow> request \<Rightarrow> store \<Rightarrow> response \<times> store" where
  "post_transactions_buy fl today req s =
     (case insertTransactionSchema_parse req BUY (Some 0) of
        None \<Rightarrow> (ValidationError, s)
      | Some transactionData \<Rightarrow>
          if fl GetCurrency then (StorageFailure, s)
          else (case getCurrency s (req_currencyId req) of
            None \<Rightarrow> (NotFound, s)
          | Some currency \<Rightarrow>
              if fl GetInventoryByCurrencyId then (StorageFailure, s)
              else (case
                 (case getInventoryByCurrencyId s (req_currencyId req) of
                    Some row \<Rightarrow> Some (row_object row, s)
                  | None \<Rightarrow>
                      if fl CreateInventoryItem then None
                      else (case createInventoryItem
                              \<lparr>currencyId = req_currencyId req, amount = 0,
                               avgBuyPrice = tx_rate transactionData\<rparr> s of
                              (row, s1) \<Rightarrow> Some (created_object row, s1))) of
                None \<Rightarrow> (StorageFailure, s)
              | Some (inventoryItem, s1) \<Rightarrow>
                  (let currentTotalValue =
                         js_times (Some (obj_amount inventoryItem))
                           (obj_avgBuyPrice inventoryItem);
                       newValue = tx_amount transactionData * tx_rate transactionData;
                       newTotalAmount = obj_amount inventoryItem + tx_amount transactionData;
                       newAvgBuyPrice =
                         (if newTotalAmount > 0
                          then js_divide (js_plus currentTotalValue (Some newValue))
                                 (Some newTotalAmount)
                          else Some (tx_rate transactionData))
                   in if fl UpdateInventoryItem then (StorageFailure, s1)
                      else (case updateInventoryItem (obj_id inventoryItem)
                                   (Some newTotalAmount) newAvgBuyPrice s1 of
                        None \<Rightarrow> (StorageFailure, s1)
                      | Some s2 \<Rightarrow>
                          if fl CreateTransaction then (StorageFailure, s2)
                          else (case createTransaction today transactionData s2 of
                                  ((i, t), s3) \<Rightarrow> (Created i t, s3)))))))"

text \<open>The last step of the sell route (\<open>Update daily stats with profit\<close>): the day's
  row is read and the sum is handed to \<open>createOrUpdateDailyStats\<close>, with the count
  \<open>dailyStats.transactionCount + 1\<close>. A \<open>NaN\<close> count is bound as \<open>NULL\<close> to a
  \<open>NOT NULL\<close> column and the statement throws. \<open>None\<close> says that a call of this step
  threw. A \<open>NaN\<close> profit does not get this far, the update of the position has thrown
  before; the definition gives \<open>None\<close> for it as well.\<close>

definition update_daily_stats :: "faults \<Rightarrow> string \<Rightarrow> number \<Rightarrow> store \<Rightarrow> store option" where
  "update_daily_stats fl today prof s =
     (if fl GetDailyStats then None
      else (case getDailyStats s today of
        Some statsRow \<Rightarrow>
          (let dailyStats = stats_row_object statsRow
           in if fl CreateOrUpdateDailyStats then None
              else (case (js_plus (Some (sobj_profit dailyStats)) prof,
                          map_option (\<lambda>n. n + 1) (sobj_transactionCount dailyStats)) of
                      (Some p, Some n) \<Rightarrow>
                        Some (snd (createOrUpdateDailyStats
                          \<lparr>date = today, profit = p, transactionCount = n\<rparr> s))
                    | _ \<Rightarrow> None))
      | None \<Rightarrow>
          if fl CreateOrUpdateDailyStats then None
          else (case prof of
                  Some p \<Rightarrow>
                    Some (snd (createOrUpdateDailyStats
                      \<lparr>date = today, profit = p, transactionCount = 1\<rparr> s))
                | None \<Rightarrow> None)))"

text \<open>\<open>POST /api/transactions/sell\<close>. The stock check compares \<open>Number(amount)\<close>; for an
  absent amount that is \<open>NaN\<close> and the comparison is false, so the request goes on to the
  parse, which rejects it. The profit (\<open>prof\<close>) and the average handed to
  \<open>updateInventoryItem\<close> come from \<open>inventoryItem.avgBuyPrice\<close>.\<close>

definition post_transactions_sell ::
  "faults \<Rightarrow> string \<Rightarrow> request \<Rightarrow> store \<Rightarrow> response \<times> store" where
  "post_transactions_sell fl today req s =
     (if fl GetInventoryByCurrencyId then (StorageFailure, s)
      else (case getInventoryByCurrencyId s (req_currencyId req) of
        None \<Rightarrow> (NotFound, s)
      | Some row \<Rightarrow>
          (let inventoryItem = row_object row
           in if (case req_amount req of
                    Some a \<Rightarrow> obj_amount inventoryItem < a | None \<Rightarrow> False)
              then (InsufficientStock (obj_amount inventoryItem), s)
              else
                (let prof = js_times (req_amount req)
                       (js_minus (req_rate req) (obj_avgBuyPrice inventoryItem))
                 in (case insertTransactionSchema_parse req SELL prof of
                   None \<Rightarrow> (ValidationError, s)
                 | Some transactionData \<Rightarrow>
                     (let newAmount =
                            js_minus (Some (obj_amount inventoryItem)) (req_amount req)
                      in if fl UpdateInventoryItem then (StorageFailure, s)
                         else (case updateInventoryItem (obj_id inventoryItem) newAmount
                                      (obj_avgBuyPrice inventoryItem) s of
                           None \<Rightarrow> (StorageFailure, s)
                         | Some s1 \<Rightarrow>
                             if fl CreateTransaction then (StorageFailure, s1)
                             else (case createTransaction today transactionData s1 of
                               ((i, t), s2) \<Rightarrow>
                                 (case update_daily_stats fl today prof s2 of
                                    None \<Rightarrow> (StorageFailure, s2)
                                  | Some s3 \<Rightarrow> (Created i t, s3))))))))))"

section \<open>Serving a sequence of requests\<close>

text \<open>
  The service handles one request after the other (a single thread of control over one
  store). A call names the route, the storage calls that throw while it is handled, the
  date the server's clock shows, and the request body.
\<close>

record call =
  route :: tx_type
  failing :: faults
  on_date :: string
  body :: request

definition handle :: "call \<Rightarrow> store \<Rightarrow> response \<times> store" where
  "handle c s =
     (case route c of
        BUY \<Rightarrow> post_transactions_buy (failing c) (on_date c) (body c) s
      | SELL \<Rightarrow> post_transactions_sell (failing c) (on_date c) (body c) s)"

fun serve :: "call list \<Rightarrow> store \<Rightarrow> response list \<times> store" where
  "serve [] s = ([], s)"
| "serve (c # cs) s =
     (case handle c s of
        (r, s1) \<Rightarrow> (case serve cs s1 of (rs, s2) \<Rightarrow> (r # rs, s2)))"

definition is_Created :: "response \<Rightarrow> bool" where
  "is_Created r = (case r of Created i t \<Rightarrow> True | _ \<Rightarrow> False)"

text \<open>No position of the store holds a negative amount.\<close>

definition nonneg_positions :: "store \<Rightarrow> bool" where
  "nonneg_positions s = (\<forall>r \<in> set (inventory s). 0 \<le> amount r)"

section \<open>MemStorage (the in-memory backend)\<close>

text \<open>
  Each table is a JavaScript \<open>Map\<close>: an association list in insertion order, read with
  \<open>map_of\<close> and written with \<open>AList.update\<close> (\<open>Map.set\<close> replaces the value of a key in
  place and appends a new key). This backend's inventory rows carry a \<open>totalValue\<close>.
  The store has the maps and counters that \<open>resetInventory\<close> and
  \<open>createOrUpdateDailyStats\<close> read or write.
\<close>

record MemInventory = Inventory +
  totalValue :: rat

record mem_store =
  m_currencies :: "(int \<times> Currency) list"
  m_inventoryItems :: "(int \<times> MemInventory) list"
  m_transactionsList :: "(int \<times> Transaction) list"
  m_stats :: "(string \<times> DailyStats) list"
  transactionCurrentId :: int
  statsCurrentId :: int

definition mem_getCurrency :: "mem_store \<Rightarrow> int \<Rightarrow> Currency option" where
  "mem_getCurrency s cid = map_of (m_currencies s) cid"

definition mem_getInventoryByCurrencyId :: "mem_store \<Rightarrow> int \<Rightarrow> MemInventory option" where
  "mem_getInventoryByCurrencyId s cid =
     find (\<lambda>item. currencyId item = cid) (map snd (m_inventoryItems s))"

definition mem_updateInventoryItem ::
  "int \<Rightarrow> rat \<Rightarrow> rat \<Rightarrow> rat option \<Rightarrow> mem_store \<Rightarrow> mem_store" where
  "mem_updateInventoryItem i amt avg tv s =
     (case map_of (m_inventoryItems s) i of
        None \<Rightarrow> s
      | Some inventoryItem \<Rightarrow>
          (let actualTotalValue = (case tv of Some v \<Rightarrow> v | None \<Rightarrow> amt * avg);
               updatedItem = inventoryItem\<lparr>amount := amt, avgBuyPrice := avg,
                                           totalValue := actualTotalValue\<rparr>
           in s\<lparr>m_inventoryItems := AList.update i updatedItem (m_inventoryItems s)\<rparr>))"

definition mem_getDailyStats :: "mem_store \<Rightarrow> string \<Rightarrow> DailyStats option" where
  "mem_getDailyStats s d = map_of (m_stats s) d"

definition mem_createOrUpdateDailyStats ::
  "InsertDailyStats \<Rightarrow> mem_store \<Rightarrow> DailyStats \<times> mem_store" where
  "mem_createOrUpdateDailyStats insertStats s =
     (case map_of (m_stats s) (date insertStats) of
        Some existingStat \<Rightarrow>
          (let updatedStat = existingStat\<lparr>profit := profit insertStats,
                               transactionCount := transactionCount insertStats\<rparr>
           in (updatedStat,
               s\<lparr>m_stats := AList.update (date insertStats) updatedStat (m_stats s)\<rparr>))
      | None \<Rightarrow>
          (let i = statsCurrentId s;
               stat = \<lparr>date = date insertStats, profit = profit insertStats,
                        transactionCount = transactionCount insertStats, stat_id = i\<rparr>
           in (stat,
               s\<lparr>m_stats := AList.update (date insertStats) stat (m_stats s),
                 statsCurrentId := i + 1\<rparr>)))"

text \<open>The body of the loop of \<open>resetInventory\<close>, for one entry of the inventory map.\<close>

definition reset_entry :: "int \<times> MemInventory \<Rightarrow> mem_store \<Rightarrow> mem_store" where
  "reset_entry = (\<lambda>(i, item) st.
     case mem_getCurrency st (currencyId item) of
       Some currency \<Rightarrow> mem_updateInventoryItem i 0 (currentRate currency) None st
     | None \<Rightarrow> st)"

text \<open>\<open>resetInventory\<close>: the loop over the entries of the inventory map, then the
  transaction map is cleared and today's stat is written as 0 / 0.\<close>

definition mem_resetInventory :: "string \<Rightarrow> mem_store \<Rightarrow> mem_store" where
  "mem_resetInventory today s =
     (let s1 = fold reset_entry (m_inventoryItems s) s;
          s2 = s1\<lparr>m_transactionsList := [], transactionCurrentId := 1\<rparr>
      in snd (mem_createOrUpdateDailyStats
                \<lparr>date = today, profit = 0, transactionCount = 0\<rparr> s2))"

text \<open>What that loop makes of one inventory row, given the currency map: zero amount
  and the currency's current rate when the currency exists.\<close>

definition reseed :: "(int \<times> Currency) list \<Rightarrow> MemInventory \<Rightarrow> MemInventory" where
  "reseed cs item =
     (case map_of cs (currencyId item) of
        Some currency \<Rightarrow>
          item\<lparr>amount := 0, avgBuyPrice := currentRate currency,
               totalValue := 0 * currentRate currency\<rparr>
      | None \<Rightarrow> item)"

section \<open>DatabaseStorage (server/dbStorage.ts): the daily stats table\<close>

text \<open>The \<open>daily_stats\<close> table of the relational backend and its \<open>serial\<close> sequence.
  \<open>createOrUpdateDailyStats\<close> selects the row of the date, then updates the rows of
  that date or inserts a new one, and returns the first row written.\<close>

record db_store =
  db_dailyStats :: "DailyStats list"
  db_dailyStats_seq :: int

definition db_getDailyStats :: "db_store \<Rightarrow> string \<Rightarrow> DailyStats option" where
  "db_getDailyStats s d = find (\<lambda>r. date r = d) (db_dailyStats s)"

definition db_createOrUpdateDailyStats ::
  "InsertDailyStats \<Rightarrow> db_store \<Rightarrow> DailyStats option \<times> db_store" where
  "db_createOrUpdateDailyStats insertStats s =
     (case find (\<lambda>r. date r = date insertStats) (db_dailyStats s) of
        Some existingStat \<Rightarrow>
          (let rows = map (\<lambda>r. if date r = date insertStats
                               then r\<lparr>profit := profit insertStats,
                                      transactionCount := transactionCount insertStats\<rparr>
                               else r)
                        (db_dailyStats s)
           in (find (\<lambda>r. date r = date insertStats) rows, s\<lparr>db_dailyStats := rows\<rparr>))
      | None \<Rightarrow>
          (let i = db_dailyStats_seq s + 1;
               newStat = \<lparr>date = date insertStats, profit = profit insertStats,
                           transactionCount = transactionCount insertStats, stat_id = i\<rparr>
           in (Some newStat,
               s\<lparr>db_dailyStats := db_dailyStats s @ [newStat], db_dailyStats_seq := i\<rparr>)))"

section \<open>Example data\<close>

definition usd :: Currency where
  "usd = \<lparr>cur_id = 1, code = ''USD'', cur_name = ''US Dollar'',
          country = ''United States'', currentRate = 165 / 2\<rparr>"

definition usd_position :: "rat \<Rightarrow> rat \<Rightarrow> Inventory" where
  "usd_position amt avg = \<lparr>currencyId = 1, amount = amt, avgBuyPrice = avg, inv_id = 1\<rparr>"

definition usd_store :: "rat \<Rightarrow> rat \<Rightarrow> store" where
  "usd_store amt avg =
     \<lparr>currencies = [usd], inventory = [usd_position amt avg], transactions = [],
      daily_stats = [], seq_inventory = 1, seq_transactions = 0, seq_daily_stats = 0\<rparr>"

text \<open>The same currency with no inventory row yet.\<close>

definition usd_store_without_position :: store where
  "usd_store_without_position =
     \<lparr>currencies = [usd], inventory = [], transactions = [], daily_stats = [],
      seq_inventory = 0, seq_transactions = 0, seq_daily_stats = 0\<rparr>"

definition order :: "rat \<Rightarrow> rat \<Rightarrow> request" where
  "order a r = \<lparr>req_currencyId = 1, req_amount = Some a, req_rate = Some r,
                req_total = Some (a * r), req_notes = None\<rparr>"

text \<open>A buy of 2 units at rate 3 whose body carries a total of 100.\<close>

definition mispriced_order :: request where
  "mispriced_order = \<lparr>req_currencyId = 1, req_amount = Some 2, req_rate = Some 3,
                        req_total = Some 100, req_notes = None\<rparr>"

text \<open>The insert into \<open>transactions\<close> throws (and nothing else does).\<close>

definition only_createTransaction_fails :: faults where
  "only_createTransaction_fails = (\<lambda>c. c = CreateTransaction)"

text \<open>An order of 40 units at rate 90 whose body has no total.\<close>

definition order_without_total :: request where
  "order_without_total = \<lparr>req_currencyId = 1, req_amount = Some 40, req_rate = Some 90,
                            req_total = None, req_notes = None\<rparr>"

text \<open>Calls of one day on the USD position, without storage faults.\<close>

definition usd_call :: "tx_type \<Rightarrow> rat \<Rightarrow> rat \<Rightarrow> call" where
  "usd_call ty a r =
     \<lparr>route = ty, failing = no_faults, on_date = ''2024-05-01'', body = order a r\<rparr>"

section \<open>Storage lemmas\<close>

lemma find_append_None:
  "find P xs = None \<Longrightarrow> find P (xs @ ys) = find P ys"
  by (induction xs) (auto split: if_splits)

lemma find_append_Some:
  "find P xs = Some x \<Longrightarrow> find P (xs @ ys) = Some x"
  by (induction xs) (auto split: if_splits)

lemma find_Some_mem: "find P xs = Some x \<Longrightarrow> x \<in> set xs \<and> P x"
  by (induction xs) (auto split: if_splits)

lemma getDailyStats_cong:
  "daily_stats s' = daily_stats s \<Longrightarrow> getDailyStats s' d = getDailyStats s d"
  by (simp add: getDailyStats_def)

text \<open>An update that would write \<open>NaN\<close> as the average of an existing row throws.\<close>

lemma updateInventoryItem_NaN:
  assumes "getInventoryByCurrencyId s cid = Some row"
  shows "updateInventoryItem (inv_id row) amt None s = None"
proof -
  from assms have "row \<in> set (inventory s)"
    by (auto simp: getInventoryByCurrencyId_def dest: find_Some_mem)
  then have "\<exists>r \<in> set (inventory s). inv_id r = inv_id row" by blast
  then show ?thesis
    by (simp add: updateInventoryItem_def split: option.splits)
qed

lemma updateInventoryItem_frame:
  assumes "updateInventoryItem i amt avg s = Some s'"
  shows "currencies s' = currencies s" "daily_stats s' = daily_stats s"
    "transactions s' = transactions s"
  using assms
  by (auto simp: updateInventoryItem_def split: if_splits option.splits)

lemma createTransaction_frame:
  "inventory (snd (createTransaction now t s)) = inventory s"
  "currencies (snd (createTransaction now t s)) = currencies s"
  "daily_stats (snd (createTransaction now t s)) = daily_stats s"
  "transactions (snd (createTransaction now t s)) =
     transactions s @ [transaction_row (fst (fst (createTransaction now t s))) now t]"
  "snd (fst (createTransaction now t s)) = t"
  by (simp_all add: createTransaction_def Let_def)

lemma createInventoryItem_frame:
  "currencies (snd (createInventoryItem item s)) = currencies s"
  "daily_stats (snd (createInventoryItem item s)) = daily_stats s"
  "transactions (snd (createInventoryItem item s)) = transactions s"
  by (simp_all add: createInventoryItem_def Let_def)

section \<open>What the sell route does\<close>

text \<open>
  The sell route reads the average buy price off the row as \<open>inventoryItem.avgBuyPrice\<close>,
  which is \<open>NaN\<close>. A request that passes the stock check and the schema therefore ends
  in the update of the position, which throws: whatever the request, the store and the
  storage faults, the route writes nothing and never answers 201.
\<close>

lemma sell_writes_nothing:
  "snd (post_transactions_sell fl today req s) = s \<and>
   \<not> is_Created (fst (post_transactions_sell fl today req s))"
proof (cases "getInventoryByCurrencyId s (req_currencyId req)")
  case None
  then show ?thesis
    by (simp add: post_transactions_sell_def is_Created_def)
next
  case (Some row)
  have "updateInventoryItem (obj_id (row_object row)) amt
          (obj_avgBuyPrice (row_object row)) s = None" for amt
    using updateInventoryItem_NaN [OF Some] by (simp add: row_object_def)
  with Some show ?thesis
    by (auto simp: post_transactions_sell_def is_Created_def Let_def
        split: option.splits)
qed

lemma sell_passing_checks_fails:
  assumes "\<not> fl GetInventoryByCurrencyId"
    and "getInventoryByCurrencyId s (req_currencyId req) = Some row"
    and "req_amount req = Some a" "a \<le> amount row"
    and "req_rate req = Some r" "req_total req = Some tot"
  shows "post_transactions_sell fl today req s = (StorageFailure, s)"
proof -
  have "updateInventoryItem (obj_id (row_object row)) amt
          (obj_avgBuyPrice (row_object row)) s = None" for amt
    using updateInventoryItem_NaN [OF assms(2)] by (simp add: row_object_def)
  with assms show ?thesis
    by (auto simp: post_transactions_sell_def Let_def insertTransactionSchema_parse_def
        row_object_def split: option.splits)
qed

section \<open>Stock sufficiency\<close>

text \<open>
  C3. A sell whose requested amount exceeds the amount of the position found for the
  currency answers InsufficientStock with that available amount and leaves the whole
  store (positions, transaction log, daily stats) as it was; a sell of at most the
  available amount, in particular of exactly the available amount, is never answered
  with InsufficientStock.
\<close>

theorem sell_insufficient_stock:
  assumes "\<not> fl GetInventoryByCurrencyId"
    and "getInventoryByCurrencyId s (req_currencyId req) = Some item"
    and "req_amount req = Some a"
  shows "(amount item < a \<longrightarrow>
            post_transactions_sell fl today req s = (InsufficientStock (amount item), s)) \<and>
         (a \<le> amount item \<longrightarrow>
            (\<forall>av. fst (post_transactions_sell fl today req s) \<noteq> InsufficientStock av))"
  using assms
  by (auto simp: post_transactions_sell_def Let_def row_object_def
      split: option.splits prod.splits if_splits)

theorem sell_insufficient_stock_witness:
  "post_transactions_sell no_faults ''2024-05-01'' (order 100 90) (usd_store 60 80)
     = (InsufficientStock 60, usd_store 60 80) \<and>
   (\<forall>av. fst (post_transactions_sell no_faults ''2024-05-01'' (order 60 90) (usd_store 60 80))
      \<noteq> InsufficientStock av)"
proof -
  have g: "getInventoryByCurrencyId (usd_store 60 80) 1 = Some (usd_position 60 80)"
    by (simp add: getInventoryByCurrencyId_def usd_store_def usd_position_def)
  have n: "\<not> no_faults GetInventoryByCurrencyId"
    by (simp add: no_faults_def)
  have "amount (usd_position 60 80) = 60"
    by (simp add: usd_position_def)
  with sell_insufficient_stock [of no_faults "usd_store 60 80" "order 100 90"
      "usd_position 60 80" 100 "''2024-05-01''"]
    sell_insufficient_stock [of no_faults "usd_store 60 80" "order 60 90"
      "usd_position 60 80" 60 "''2024-05-01''"] g n
  show ?thesis
    by (simp add: order_def)
qed

section \<open>What the buy route does\<close>

text \<open>
  A buy on a currency that has a position reads \<open>inventoryItem.avgBuyPrice\<close> off the row
  as \<open>NaN\<close>. When the new total amount is positive the new average is \<open>NaN\<close> and the
  update throws: the buy is answered 500 and nothing is written.
\<close>

lemma buy_onto_position_fails:
  assumes "getCurrency s (req_currencyId req) \<noteq> None"
    and "getInventoryByCurrencyId s (req_currencyId req) = Some row"
    and "req_amount req = Some a" "req_rate req = Some r" "req_total req = Some tot"
    and "0 < amount row + a"
  shows "post_transactions_buy fl today req s = (StorageFailure, s)"
proof -
  have "updateInventoryItem (obj_id (row_object row)) amt None s = None" for amt
    using updateInventoryItem_NaN [OF assms(2)] by (simp add: row_object_def)
  with assms show ?thesis
    by (auto simp: post_transactions_buy_def Let_def insertTransactionSchema_parse_def
        row_object_def js_times_def js_plus_def js_divide_def split: option.splits)
qed

text \<open>A buy answered 201 has appended one row to the log: the row has the request's
  currency, amount, rate, total and notes, type BUY and profit 0, and so has the
  transaction in the response.\<close>

lemma buy_Created:
  assumes "post_transactions_buy fl today req s = (Created i t, s')"
  shows "\<exists>a r tot.
           req_amount req = Some a \<and> req_rate req = Some r \<and> req_total req = Some tot \<and>
           t = \<lparr>tx_currencyId = req_currencyId req, tx_type = BUY, tx_amount = a,
                tx_rate = r, tx_total = tot, tx_notes = req_notes req,
                tx_profit = Some 0\<rparr> \<and>
           transactions s' = transactions s @
             [\<lparr>tx_currencyId = req_currencyId req, tx_type = BUY, tx_amount = a,
               tx_rate = r, tx_total = tot, tx_notes = req_notes req,
               tx_profit = Some 0, tx_id = i, tx_timestamp = today\<rparr>]"
  using assms
  unfolding post_transactions_buy_def insertTransactionSchema_parse_def
  by (auto simp: Let_def createTransaction_def createInventoryItem_def
      updateInventoryItem_def transaction_row_def
      split: option.splits if_splits prod.splits)

section \<open>A sell and the average buy price\<close>

text \<open>
  C2. The sell of 40 units at rate 90 from the position of 100 units at average 80
  passes the stock check and the schema. The route hands \<open>NaN\<close> to the update as the
  average to keep, the update throws, and the sell is answered 500 with the position
  still at 100 units: the store does not get to amount 60 at average 80.
\<close>

theorem sell_answered_500_position_unchanged:
  "post_transactions_sell no_faults ''2024-05-01'' (order 40 90) (usd_store 100 80)
     = (StorageFailure, usd_store 100 80) \<and>
   getInventoryByCurrencyId (usd_store 100 80) 1 = Some (usd_position 100 80) \<and>
   obj_avgBuyPrice (row_object (usd_position 100 80)) = None"
  by (simp add: post_transactions_sell_def no_faults_def order_def usd_store_def
      usd_position_def getInventoryByCurrencyId_def insertTransactionSchema_parse_def
      updateInventoryItem_def row_object_def js_times_def js_minus_def Let_def)

section \<open>Profit of a transaction\<close>

text \<open>
  C4. No request to the sell route creates a transaction: whatever the request, the
  store and the storage faults, the answer is not 201 and the log is as before. At the
  sell of 40 units at rate 90 from 100 units at average 80 the profit the route
  computes is \<open>NaN\<close>, not 400.
\<close>

theorem sell_creates_no_transaction:
  "\<not> is_Created (fst (post_transactions_sell fl today req s)) \<and>
   transactions (snd (post_transactions_sell fl today req s)) = transactions s \<and>
   js_times (req_amount (order 40 90))
     (js_minus (req_rate (order 40 90)) (obj_avgBuyPrice (row_object (usd_position 100 80))))
     = None"
  using sell_writes_nothing [of fl today req s]
  by (simp add: row_object_def js_times_def js_minus_def order_def)

text \<open>The other half of C4 holds: the row a buy answered 201 has stored is of type BUY
  with profit 0.\<close>

lemma buy_row_has_profit_0:
  assumes "post_transactions_buy fl today req s = (Created i t, s')"
  shows "\<exists>row. transactions s' = transactions s @ [row] \<and>
           tx_type row = BUY \<and> tx_profit row = Some 0 \<and> tx_id row = i \<and>
           tx_type t = BUY \<and> tx_profit t = Some 0"
  using buy_Created [OF assms] by auto

section \<open>Daily stat additivity\<close>

lemma buy_daily_stats:
  "daily_stats (snd (post_transactions_buy fl today req s)) = daily_stats s"
  by (auto simp: post_transactions_buy_def insertTransactionSchema_parse_def Let_def
      createTransaction_def createInventoryItem_def updateInventoryItem_def
      split: option.splits prod.splits if_splits)

lemma handle_daily_stats:
  "daily_stats (snd (handle c s)) = daily_stats s"
  using buy_daily_stats [of "failing c" "on_date c" "body c" s]
    sell_writes_nothing [of "failing c" "on_date c" "body c" s]
  by (cases "route c") (simp_all add: handle_def)

text \<open>No sequence of requests changes a daily stat.\<close>

lemma serve_daily_stats:
  "daily_stats (snd (serve cs s)) = daily_stats s"
proof (induction cs arbitrary: s)
  case Nil
  then show ?case by simp
next
  case (Cons c cs)
  obtain r s1 where h: "handle c s = (r, s1)" by (cases "handle c s")
  with handle_daily_stats [of c s] have "daily_stats s1 = daily_stats s" by simp
  with Cons.IH [of s1] h show ?case
    by (auto split: prod.splits)
qed

text \<open>
  C5. Two sells of one day, 40 units at rate 90 and 10 units at rate 70, from a position
  of 100 units at average 80 and no stat for the day: both pass the stock check and the
  schema and both are answered 500 at the update of the position. The route never gets
  to the daily stat, and no row exists for the day afterwards, where profit 300 and
  count 2 are due.
\<close>

theorem sells_leave_no_daily_stat:
  "serve [usd_call SELL 40 90, usd_call SELL 10 70] (usd_store 100 80)
     = ([StorageFailure, StorageFailure], usd_store 100 80) \<and>
   getDailyStats (usd_store 100 80) ''2024-05-01'' = None"
  by (simp add: handle_def usd_call_def post_transactions_sell_def no_faults_def order_def
      usd_store_def usd_position_def getInventoryByCurrencyId_def getDailyStats_def
      insertTransactionSchema_parse_def updateInventoryItem_def row_object_def
      js_times_def js_minus_def Let_def)

section \<open>Weighted average over a sequence of buys\<close>

text \<open>
  C1. Buy 100 units at rate 80, then 50 units at rate 83. On the currency's position of
  amount 0 both buys are answered 500 and the position stays at amount 0. With no
  position yet, the first buy creates it and leaves 100 units at average 80; the second
  is answered 500 and the position stays at 100 units at 80, not 150 units at 81.
\<close>

theorem second_buy_answered_500:
  "serve [usd_call BUY 100 80, usd_call BUY 50 83] (usd_store 0 (165 / 2))
     = ([StorageFailure, StorageFailure], usd_store 0 (165 / 2)) \<and>
   map is_Created (fst (serve [usd_call BUY 100 80, usd_call BUY 50 83]
      usd_store_without_position)) = [True, False] \<and>
   inventory (snd (serve [usd_call BUY 100 80, usd_call BUY 50 83]
      usd_store_without_position)) = [usd_position 100 80]"
  by (simp add: handle_def usd_call_def post_transactions_buy_def no_faults_def order_def
      usd_store_def usd_store_without_position_def usd_def usd_position_def
      getInventoryByCurrencyId_def getCurrency_def insertTransactionSchema_parse_def
      updateInventoryItem_def createInventoryItem_def createTransaction_def
      lastInsertRowid_def row_object_def created_object_def is_Created_def
      js_times_def js_plus_def js_divide_def Let_def)

section \<open>A failing step leaves a partial write\<close>

text \<open>
  C6. The routes issue their writes one storage call after the other, with no enclosing
  transaction. A buy of 50 units at rate 83 of a currency without a position, with the
  insert into \<open>transactions\<close> throwing: the buy is answered 500 while the inventory row
  has been created and updated to 50 units at 83, and no transaction row exists.
\<close>

theorem failed_insert_leaves_position_changed:
  "post_transactions_buy only_createTransaction_fails ''2024-05-01'' (order 50 83)
     usd_store_without_position
     = (StorageFailure,
        usd_store_without_position\<lparr>inventory := [usd_position 50 83], seq_inventory := 1\<rparr>) \<and>
   inventory usd_store_without_position = [] \<and>
   transactions (usd_store_without_position
      \<lparr>inventory := [usd_position 50 83], seq_inventory := 1\<rparr>) = []"
  by (simp add: post_transactions_buy_def only_createTransaction_fails_def order_def
      usd_store_without_position_def usd_def usd_position_def
      getInventoryByCurrencyId_def getCurrency_def insertTransactionSchema_parse_def
      updateInventoryItem_def createInventoryItem_def lastInsertRowid_def
      created_object_def js_times_def js_plus_def js_divide_def Let_def)

section \<open>The stored total\<close>

lemma mispriced_buy_example:
  "post_transactions_buy no_faults ''2024-05-01'' mispriced_order usd_store_without_position =
    (Created 1 \<lparr>tx_currencyId = 1, tx_type = BUY, tx_amount = 2, tx_rate = 3,
        tx_total = 100, tx_notes = None, tx_profit = Some 0\<rparr>,
     \<lparr>currencies = [usd], inventory = [usd_position 2 3],
      transactions =
        [\<lparr>tx_currencyId = 1, tx_type = BUY, tx_amount = 2, tx_rate = 3,
          tx_total = 100, tx_notes = None, tx_profit = Some 0, tx_id = 1,
          tx_timestamp = ''2024-05-01''\<rparr>],
      daily_stats = [],
      seq_inventory = 1, seq_transactions = 1, seq_daily_stats = 0\<rparr>)"
  by (simp add: post_transactions_buy_def no_faults_def mispriced_order_def
      usd_store_without_position_def usd_def usd_position_def
      getInventoryByCurrencyId_def getCurrency_def insertTransactionSchema_parse_def
      updateInventoryItem_def createInventoryItem_def createTransaction_def
      lastInsertRowid_def transaction_row_def created_object_def
      js_times_def js_plus_def js_divide_def Let_def)

text \<open>
  C9 as stated fails: a buy of 2 units at rate 3 whose body says total 100, of a
  currency without a position, is answered 201 and the stored row keeps total 100,
  while amount times rate is 6.
\<close>

theorem stored_total_counterexample:
  "is_Created (fst (post_transactions_buy no_faults ''2024-05-01'' mispriced_order
      usd_store_without_position)) \<and>
   map tx_total (transactions (snd (post_transactions_buy no_faults ''2024-05-01''
      mispriced_order usd_store_without_position))) = [100] \<and>
   map (\<lambda>row. tx_amount row * tx_rate row)
     (transactions (snd (post_transactions_buy no_faults ''2024-05-01''
        mispriced_order usd_store_without_position))) = [6]"
  by (simp add: mispriced_buy_example is_Created_def)

text \<open>
  C9, amended. When a buy or a sell is answered 201, exactly one row has been appended
  to the transaction log, and that row carries the amount, the rate and the total of
  the request body as they came, as does the transaction in the response: the stored
  total is the total the caller sent (a body without a total is refused by the schema),
  the processor does not compute it from amount and rate.
\<close>

theorem stored_total_is_request_total:
  assumes "post_transactions_buy fl today req s = (Created i t, s') \<or>
           post_transactions_sell fl today req s = (Created i t, s')"
  shows "\<exists>row. transactions s' = transactions s @ [row] \<and>
           tx_id row = i \<and>
           req_amount req = Some (tx_amount row) \<and>
           req_rate req = Some (tx_rate row) \<and>
           req_total req = Some (tx_total row) \<and>
           tx_amount t = tx_amount row \<and> tx_rate t = tx_rate row \<and>
           tx_total t = tx_total row"
  using assms
proof
  assume "post_transactions_buy fl today req s = (Created i t, s')"
  from buy_Created [OF this] show ?thesis by auto
next
  assume "post_transactions_sell fl today req s = (Created i t, s')"
  with sell_writes_nothing [of fl today req s] show ?thesis
    by (simp add: is_Created_def)
qed

theorem stored_total_is_request_total_witness:
  "req_amount mispriced_order = Some 2 \<and> req_rate mispriced_order = Some 3 \<and>
   req_total mispriced_order = Some 100 \<and>
   map (\<lambda>row. (tx_amount row, tx_rate row, tx_total row))
     (transactions (snd (post_transactions_buy no_faults ''2024-05-01''
        mispriced_order usd_store_without_position))) = [(2, 3, 100)]"
  using stored_total_is_request_total [OF disjI1, OF mispriced_buy_example]
  by (simp add: mispriced_buy_example)

section \<open>The daily stats upsert replaces\<close>

lemma find_date_updated:
  "find (\<lambda>r. date r = d)
     (map (\<lambda>r. if date r = d then r\<lparr>profit := p, transactionCount := n\<rparr> else r) xs) =
   map_option (\<lambda>r. r\<lparr>profit := p, transactionCount := n\<rparr>) (find (\<lambda>r. date r = d) xs)"
  by (induction xs) auto

lemma find_date_other:
  "d' \<noteq> d \<Longrightarrow>
   find (\<lambda>r. date r = d')
     (map (\<lambda>r. if date r = d then r\<lparr>profit := p, transactionCount := n\<rparr> else r) xs) =
   find (\<lambda>r. date r = d') xs"
  by (induction xs) auto

lemma getDailyStats_upsert_same:
  "\<exists>r. getDailyStats (snd (createOrUpdateDailyStats stats s)) (date stats) = Some r \<and>
       fst (createOrUpdateDailyStats stats s) = Some r \<and>
       profit r = profit stats \<and> transactionCount r = transactionCount stats"
proof (cases "\<exists>r \<in> set (daily_stats s). date r = date stats")
  case True
  then obtain r0 where "find (\<lambda>r. date r = date stats) (daily_stats s) = Some r0"
    by (cases "find (\<lambda>r. date r = date stats) (daily_stats s)")
       (auto simp: find_None_iff)
  with True show ?thesis
    by (simp add: createOrUpdateDailyStats_def getDailyStats_def find_date_updated)
next
  case False
  then have "find (\<lambda>r. date r = date stats) (daily_stats s) = None"
    by (auto simp: find_None_iff)
  with False show ?thesis
    by (simp add: createOrUpdateDailyStats_def getDailyStats_def Let_def find_append_None)
qed

lemma getDailyStats_upsert_other:
  assumes "d \<noteq> date stats"
  shows "getDailyStats (snd (createOrUpdateDailyStats stats s)) d = getDailyStats s d"
proof (cases "\<exists>r \<in> set (daily_stats s). date r = date stats")
  case True
  with assms show ?thesis
    by (simp add: createOrUpdateDailyStats_def getDailyStats_def find_date_other)
next
  case False
  show ?thesis
  proof (cases "find (\<lambda>r. date r = d) (daily_stats s)")
    case None
    with False assms show ?thesis
      by (simp add: createOrUpdateDailyStats_def getDailyStats_def Let_def find_append_None)
  next
    case (Some r)
    with False assms show ?thesis
      by (simp add: createOrUpdateDailyStats_def getDailyStats_def Let_def find_append_Some)
  qed
qed

lemma mem_getDailyStats_upsert_same:
  "mem_getDailyStats (snd (mem_createOrUpdateDailyStats stats s)) (date stats)
     = Some (fst (mem_createOrUpdateDailyStats stats s)) \<and>
   profit (fst (mem_createOrUpdateDailyStats stats s)) = profit stats \<and>
   transactionCount (fst (mem_createOrUpdateDailyStats stats s)) = transactionCount stats"
  by (simp add: mem_createOrUpdateDailyStats_def mem_getDailyStats_def Let_def update_conv'
      split: option.splits)

lemma db_getDailyStats_upsert_same:
  "\<exists>r. db_getDailyStats (snd (db_createOrUpdateDailyStats stats s)) (date stats) = Some r \<and>
       fst (db_createOrUpdateDailyStats stats s) = Some r \<and>
       profit r = profit stats \<and> transactionCount r = transactionCount stats"
proof (cases "find (\<lambda>r. date r = date stats) (db_dailyStats s)")
  case None
  then show ?thesis
    by (simp add: db_createOrUpdateDailyStats_def db_getDailyStats_def Let_def
        find_append_None)
next
  case (Some r0)
  then show ?thesis
    by (simp add: db_createOrUpdateDailyStats_def db_getDailyStats_def Let_def
        find_date_updated)
qed

text \<open>
  C10. In each of the three backends \<open>createOrUpdateDailyStats\<close> replaces: whatever the
  table held for the date before, afterwards the row read for the payload's date, which
  is also the row the call returns, has exactly the payload's profit and transaction
  count. Nothing is added to the values stored before; the sell route does the adding
  itself and passes the sum.
\<close>

theorem createOrUpdateDailyStats_replaces:
  "(\<exists>r. getDailyStats (snd (createOrUpdateDailyStats stats s)) (date stats) = Some r \<and>
        fst (createOrUpdateDailyStats stats s) = Some r \<and>
        profit r = profit stats \<and> transactionCount r = transactionCount stats) \<and>
   (\<exists>r. mem_getDailyStats (snd (mem_createOrUpdateDailyStats stats m)) (date stats) = Some r \<and>
        fst (mem_createOrUpdateDailyStats stats m) = r \<and>
        profit r = profit stats \<and> transactionCount r = transactionCount stats) \<and>
   (\<exists>r. db_getDailyStats (snd (db_createOrUpdateDailyStats stats db)) (date stats) = Some r \<and>
        fst (db_createOrUpdateDailyStats stats db) = Some r \<and>
        profit r = profit stats \<and> transactionCount r = transactionCount stats)"
  using getDailyStats_upsert_same [of stats s] mem_getDailyStats_upsert_same [of stats m]
    db_getDailyStats_upsert_same [of stats db]
  by simp

section \<open>Validation\<close>

lemma negative_buy_example:
  "post_transactions_buy no_faults ''2024-05-01'' (order (- 5) 80) (usd_store 0 80) =
    (Created 1 \<lparr>tx_currencyId = 1, tx_type = BUY, tx_amount = - 5, tx_rate = 80,
        tx_total = - 400, tx_notes = None, tx_profit = Some 0\<rparr>,
     \<lparr>currencies = [usd], inventory = [usd_position (- 5) 80],
      transactions = [transaction_row 1 ''2024-05-01''
         \<lparr>tx_currencyId = 1, tx_type = BUY, tx_amount = - 5, tx_rate = 80,
          tx_total = - 400, tx_notes = None, tx_profit = Some 0\<rparr>],
      daily_stats = [],
      seq_inventory = 1, seq_transactions = 1, seq_daily_stats = 0\<rparr>)"
  by (simp add: post_transactions_buy_def no_faults_def order_def usd_store_def usd_def
      usd_position_def getInventoryByCurrencyId_def insertTransactionSchema_parse_def
      getCurrency_def updateInventoryItem_def createTransaction_def lastInsertRowid_def
      row_object_def js_times_def Let_def)

text \<open>
  C7 as stated fails: a buy of amount -5 is answered 201, not with a validation error;
  it stores a transaction and leaves the position at amount -5.
\<close>

theorem negative_amount_counterexample:
  "fst (post_transactions_buy no_faults ''2024-05-01'' (order (- 5) 80) (usd_store 0 80))
     \<noteq> ValidationError \<and>
   is_Created (fst (post_transactions_buy no_faults ''2024-05-01'' (order (- 5) 80)
     (usd_store 0 80))) \<and>
   getInventoryByCurrencyId
     (snd (post_transactions_buy no_faults ''2024-05-01'' (order (- 5) 80) (usd_store 0 80))) 1
     = Some (usd_position (- 5) 80) \<and>
   amount (usd_position (- 5) 80) < 0 \<and>
   length (transactions
     (snd (post_transactions_buy no_faults ''2024-05-01'' (order (- 5) 80) (usd_store 0 80))))
     = 1"
  by (simp add: negative_buy_example is_Created_def getInventoryByCurrencyId_def
      usd_position_def)

lemma buy_missing_field:
  assumes "req_amount req = None \<or> req_rate req = None \<or> req_total req = None"
  shows "post_transactions_buy fl today req s = (ValidationError, s)"
  using assms
  by (auto simp: post_transactions_buy_def insertTransactionSchema_parse_def
      split: option.splits)

lemma sell_missing_field:
  assumes "req_amount req = None \<or> req_rate req = None \<or> req_total req = None"
  shows "snd (post_transactions_sell fl today req s) = s \<and>
         \<not> is_Created (fst (post_transactions_sell fl today req s))"
  by (rule sell_writes_nothing)

lemma sell_missing_field_ValidationError:
  assumes "req_amount req = None \<or> req_rate req = None \<or> req_total req = None"
    and "\<not> fl GetInventoryByCurrencyId"
    and "getInventoryByCurrencyId s (req_currencyId req) = Some item"
    and "case req_amount req of Some a \<Rightarrow> a \<le> amount item | None \<Rightarrow> True"
  shows "post_transactions_sell fl today req s = (ValidationError, s)"
  using assms
  by (auto simp: post_transactions_sell_def insertTransactionSchema_parse_def Let_def
      row_object_def split: option.splits)

lemma sell_keeps_nonneg:
  assumes "nonneg_positions s"
  shows "nonneg_positions (snd (post_transactions_sell fl today req s))"
  using assms sell_writes_nothing [of fl today req s] by simp

lemma buy_keeps_nonneg:
  assumes "nonneg_positions s"
    and "case req_amount req of Some a \<Rightarrow> 0 \<le> a | None \<Rightarrow> True"
  shows "nonneg_positions (snd (post_transactions_buy fl today req s))"
  using assms
  unfolding post_transactions_buy_def insertTransactionSchema_parse_def nonneg_positions_def
  by (auto simp: Let_def createTransaction_def createInventoryItem_def
      updateInventoryItem_def getInventoryByCurrencyId_def row_object_def
      created_object_def dest!: find_Some_mem split: option.splits prod.splits if_splits)

text \<open>
  C7, amended. The only validation of the processor is the schema: a buy or sell whose
  body lacks the amount, the rate or the total changes no stored record and creates no
  transaction; the buy is answered with a validation error, and so is the sell when the
  lookup of the position works, the position exists and a given amount does not exceed
  it (otherwise the sell has already been answered 500, 404 or InsufficientStock). As to
  negative holdings: when no position is negative, none is after a sell, whatever the
  request, and none is after a buy whose amount is not negative.
\<close>

theorem schema_validation_and_nonnegative_positions:
  "(req_amount req = None \<or> req_rate req = None \<or> req_total req = None \<longrightarrow>
      post_transactions_buy fl today req s = (ValidationError, s) \<and>
      snd (post_transactions_sell fl today req s) = s \<and>
      \<not> is_Created (fst (post_transactions_sell fl today req s)) \<and>
      (\<not> fl GetInventoryByCurrencyId \<and>
       (\<exists>item. getInventoryByCurrencyId s (req_currencyId req) = Some item \<and>
          (case req_amount req of Some a \<Rightarrow> a \<le> amount item | None \<Rightarrow> True)) \<longrightarrow>
       post_transactions_sell fl today req s = (ValidationError, s))) \<and>
   (nonneg_positions s \<longrightarrow>
      nonneg_positions (snd (post_transactions_sell fl today req s)) \<and>
      ((case req_amount req of Some a \<Rightarrow> 0 \<le> a | None \<Rightarrow> True) \<longrightarrow>
         nonneg_positions (snd (post_transactions_buy fl today req s))))"
proof (intro conjI impI)
  assume m: "req_amount req = None \<or> req_rate req = None \<or> req_total req = None"
  from buy_missing_field [OF m]
  show "post_transactions_buy fl today req s = (ValidationError, s)" .
  from sell_missing_field [OF m]
  show "snd (post_transactions_sell fl today req s) = s"
    and "\<not> is_Created (fst (post_transactions_sell fl today req s))"
    by simp_all
  assume "\<not> fl GetInventoryByCurrencyId \<and>
       (\<exists>item. getInventoryByCurrencyId s (req_currencyId req) = Some item \<and>
          (case req_amount req of Some a \<Rightarrow> a \<le> amount item | None \<Rightarrow> True))"
  with sell_missing_field_ValidationError [OF m]
  show "post_transactions_sell fl today req s = (ValidationError, s)"
    by blast
next
  assume n: "nonneg_positions s"
  from sell_keeps_nonneg [OF n]
  show "nonneg_positions (snd (post_transactions_sell fl today req s))" .
  assume "case req_amount req of Some a \<Rightarrow> 0 \<le> a | None \<Rightarrow> True"
  with buy_keeps_nonneg [OF n]
  show "nonneg_positions (snd (post_transactions_buy fl today req s))" .
qed

theorem schema_validation_and_nonnegative_positions_witness:
  "post_transactions_buy no_faults ''2024-05-01'' order_without_total (usd_store 60 80)
     = (ValidationError, usd_store 60 80) \<and>
   post_transactions_sell no_faults ''2024-05-01'' order_without_total (usd_store 60 80)
     = (ValidationError, usd_store 60 80) \<and>
   nonneg_positions (usd_store 60 80) \<and>
   nonneg_positions
     (snd (post_transactions_sell no_faults ''2024-05-01'' (order 40 90) (usd_store 60 80))) \<and>
   nonneg_positions
     (snd (post_transactions_buy no_faults ''2024-05-01'' (order 40 90) (usd_store 60 80)))"
proof -
  have m: "req_amount order_without_total = None \<or> req_rate order_without_total = None \<or>
           req_total order_without_total = None"
    by (simp add: order_without_total_def)
  have f: "\<not> no_faults GetInventoryByCurrencyId"
    by (simp add: no_faults_def)
  have g: "\<exists>item. getInventoryByCurrencyId (usd_store 60 80)
              (req_currencyId order_without_total) = Some item \<and>
            (case req_amount order_without_total of
               Some a \<Rightarrow> a \<le> amount item | None \<Rightarrow> True)"
    by (simp add: getInventoryByCurrencyId_def usd_store_def usd_position_def
        order_without_total_def)
  have n: "nonneg_positions (usd_store 60 80)"
    by (simp add: nonneg_positions_def usd_store_def usd_position_def)
  have a: "case req_amount (order 40 90) of Some a \<Rightarrow> 0 \<le> a | None \<Rightarrow> True"
    by (simp add: order_def)
  from schema_validation_and_nonnegative_positions
         [of order_without_total no_faults "''2024-05-01''" "usd_store 60 80"]
       schema_validation_and_nonnegative_positions
         [of "order 40 90" no_faults "''2024-05-01''" "usd_store 60 80"]
       m f g n a
  show ?thesis by blast
qed

section \<open>Reset\<close>

lemma resetInventory_zeroes:
  "\<forall>r \<in> set (inventory (resetInventory s)). amount r = 0"
  "transactions (resetInventory s) = []"
  "\<forall>r \<in> set (daily_stats (resetInventory s)). profit r = 0 \<and> transactionCount r = 0"
  by (auto simp: resetInventory_def)

lemma resetInventory_keeps_avgBuyPrice:
  "map avgBuyPrice (inventory (resetInventory s)) = map avgBuyPrice (inventory s)"
  "currencies (resetInventory s) = currencies s"
  "map date (daily_stats (resetInventory s)) = map date (daily_stats s)"
  by (simp_all add: resetInventory_def comp_def)

lemma resetInventory_idempotent:
  "resetInventory (resetInventory s) = resetInventory s"
  by (simp add: resetInventory_def comp_def)

text \<open>
  C8. \<open>SqliteStorage.resetInventory\<close> on a store whose USD position holds 100 at an
  average of 80 while the currency's current rate is 82.5: the amount is zeroed, but the
  average buy price stays 80 and is not set to the current rate; and with no row for
  today in \<open>daily_stats\<close>, none exists afterwards.
\<close>

theorem sqlite_reset_keeps_old_avgBuyPrice:
  "getInventoryByCurrencyId (resetInventory (usd_store 100 80)) 1
     = Some (usd_position 0 80) \<and>
   map_option currentRate (getCurrency (resetInventory (usd_store 100 80)) 1)
     = Some (165 / 2) \<and>
   getDailyStats (resetInventory (usd_store 100 80)) ''2024-05-01'' = None"
  by (simp add: resetInventory_def usd_store_def usd_position_def usd_def
      getInventoryByCurrencyId_def getCurrency_def getDailyStats_def)

section \<open>Reset in the in-memory backend\<close>

lemma mem_resetInventory_fold:
  "mem_resetInventory today s =
     snd (mem_createOrUpdateDailyStats \<lparr>date = today, profit = 0, transactionCount = 0\<rparr>
       ((fold reset_entry (m_inventoryItems s) s)
          \<lparr>m_transactionsList := [], transactionCurrentId := 1\<rparr>))"
  by (simp add: mem_resetInventory_def Let_def)

lemma reset_entry_frame:
  "m_currencies (reset_entry e st) = m_currencies st"
  "m_transactionsList (reset_entry e st) = m_transactionsList st"
  "m_stats (reset_entry e st) = m_stats st"
  "transactionCurrentId (reset_entry e st) = transactionCurrentId st"
  "statsCurrentId (reset_entry e st) = statsCurrentId st"
  by (cases e; simp add: reset_entry_def mem_updateInventoryItem_def Let_def
      split: option.splits)+

lemma reset_entry_items:
  assumes "map_of (m_inventoryItems st) i = Some item"
  shows "map_of (m_inventoryItems (reset_entry (i, item) st)) =
           (map_of (m_inventoryItems st))(i \<mapsto> reseed (m_currencies st) item)"
    and "map fst (m_inventoryItems (reset_entry (i, item) st)) =
           map fst (m_inventoryItems st)"
proof -
  from assms have "i \<in> fst ` set (m_inventoryItems st)"
    by (auto dest: map_of_SomeD intro: rev_image_eqI)
  then have keys: "map fst (AList.update i v (m_inventoryItems st)) =
                     map fst (m_inventoryItems st)" for v
    by (simp add: update_keys)
  show "map_of (m_inventoryItems (reset_entry (i, item) st)) =
           (map_of (m_inventoryItems st))(i \<mapsto> reseed (m_currencies st) item)"
    using assms
    by (auto simp: reset_entry_def mem_updateInventoryItem_def mem_getCurrency_def
        reseed_def Let_def update_conv' split: option.splits)
  show "map fst (m_inventoryItems (reset_entry (i, item) st)) =
           map fst (m_inventoryItems st)"
    using assms keys
    by (simp add: reset_entry_def mem_updateInventoryItem_def Let_def split: option.splits)
qed

lemma fold_reset_entry_frame:
  "m_currencies (fold reset_entry xs st) = m_currencies st"
  "m_transactionsList (fold reset_entry xs st) = m_transactionsList st"
  "m_stats (fold reset_entry xs st) = m_stats st"
  "transactionCurrentId (fold reset_entry xs st) = transactionCurrentId st"
  "statsCurrentId (fold reset_entry xs st) = statsCurrentId st"
  by (induction xs arbitrary: st; simp add: reset_entry_frame)+

lemma fold_reset_entry_items:
  assumes "distinct (map fst xs)"
    and "\<forall>(i, item) \<in> set xs. map_of (m_inventoryItems st) i = Some item"
  shows "map_of (m_inventoryItems (fold reset_entry xs st)) k =
           (if k \<in> fst ` set xs
            then map_option (reseed (m_currencies st)) (map_of (m_inventoryItems st) k)
            else map_of (m_inventoryItems st) k) \<and>
         map fst (m_inventoryItems (fold reset_entry xs st)) = map fst (m_inventoryItems st)"
  using assms
proof (induction xs arbitrary: st)
  case Nil
  then show ?case by simp
next
  case (Cons e xs)
  obtain i item where e: "e = (i, item)" by (cases e)
  let ?st1 = "reset_entry (i, item) st"
  from Cons.prems(2) e have here: "map_of (m_inventoryItems st) i = Some item"
    by simp
  note one = reset_entry_items [OF here]
  from Cons.prems(1) e have fresh: "i \<notin> fst ` set xs" and dist: "distinct (map fst xs)"
    by simp_all
  have rest: "\<forall>(j, v) \<in> set xs. map_of (m_inventoryItems ?st1) j = Some v"
  proof (clarify)
    fix j v assume jv: "(j, v) \<in> set xs"
    with fresh have "j \<noteq> i" by force
    moreover from Cons.prems(2) jv have "map_of (m_inventoryItems st) j = Some v"
      by auto
    ultimately show "map_of (m_inventoryItems ?st1) j = Some v"
      by (simp add: one(1))
  qed
  from Cons.IH [OF dist rest]
  have ih: "map_of (m_inventoryItems (fold reset_entry xs ?st1)) k =
           (if k \<in> fst ` set xs
            then map_option (reseed (m_currencies ?st1)) (map_of (m_inventoryItems ?st1) k)
            else map_of (m_inventoryItems ?st1) k)"
    and keys: "map fst (m_inventoryItems (fold reset_entry xs ?st1)) =
                 map fst (m_inventoryItems ?st1)"
    by simp_all
  have cur: "m_currencies ?st1 = m_currencies st"
    by (rule reset_entry_frame)
  show ?case
  proof (cases "k = i")
    case True
    with fresh ih here show ?thesis
      by (simp add: e one keys)
  next
    case False
    with ih show ?thesis
      by (simp add: e one keys cur)
  qed
qed

lemma reseed_again:
  "reseed cs (reseed cs item) = reseed cs item"
  "currencyId (reseed cs item) = currencyId item"
  by (simp_all add: reseed_def split: option.splits)

lemma fold_reset_entry_fixed:
  assumes "\<forall>(i, item) \<in> set xs.
             map_of (m_inventoryItems st) i = Some item \<and>
             reseed (m_currencies st) item = item"
  shows "fold reset_entry xs st = st"
  using assms
proof (induction xs)
  case Nil
  then show ?case by simp
next
  case (Cons e xs)
  obtain i item where e: "e = (i, item)" by (cases e)
  from Cons.prems e have here: "map_of (m_inventoryItems st) i = Some item"
    and fixed: "reseed (m_currencies st) item = item"
    by simp_all
  have "reset_entry (i, item) st = st"
  proof (cases "map_of (m_currencies st) (currencyId item)")
    case None
    then show ?thesis
      by (simp add: reset_entry_def mem_getCurrency_def)
  next
    case (Some c)
    with fixed have "item\<lparr>amount := 0, avgBuyPrice := currentRate c,
                          totalValue := 0 * currentRate c\<rparr> = item"
      by (simp add: reseed_def)
    moreover from here have "AList.update i item (m_inventoryItems st) = m_inventoryItems st"
      by (rule update_triv)
    ultimately show ?thesis
      using Some here
      by (simp add: reset_entry_def mem_getCurrency_def mem_updateInventoryItem_def Let_def)
  qed
  with Cons show ?case by (simp add: e)
qed

lemma mem_createOrUpdateDailyStats_frame:
  "m_inventoryItems (snd (mem_createOrUpdateDailyStats x st)) = m_inventoryItems st"
  "m_currencies (snd (mem_createOrUpdateDailyStats x st)) = m_currencies st"
  "m_transactionsList (snd (mem_createOrUpdateDailyStats x st)) = m_transactionsList st"
  "transactionCurrentId (snd (mem_createOrUpdateDailyStats x st)) = transactionCurrentId st"
  by (simp_all add: mem_createOrUpdateDailyStats_def Let_def split: option.splits)

lemma mem_createOrUpdateDailyStats_again:
  assumes "map_of (m_stats st) (date x) = Some row"
    and "profit row = profit x" and "transactionCount row = transactionCount x"
  shows "snd (mem_createOrUpdateDailyStats x st) = st"
proof -
  from assms(2,3) have "row\<lparr>profit := profit x, transactionCount := transactionCount x\<rparr> = row"
    by simp
  moreover from assms(1) have "AList.update (date x) row (m_stats st) = m_stats st"
    by (rule update_triv)
  ultimately show ?thesis
    using assms(1) by (simp add: mem_createOrUpdateDailyStats_def Let_def)
qed

lemma mem_resetInventory_items:
  assumes "distinct (map fst (m_inventoryItems s))"
  shows "map_of (m_inventoryItems (mem_resetInventory today s)) k =
           map_option (reseed (m_currencies s)) (map_of (m_inventoryItems s) k)"
    and "map fst (m_inventoryItems (mem_resetInventory today s)) = map fst (m_inventoryItems s)"
    and "m_currencies (mem_resetInventory today s) = m_currencies s"
proof -
  have all: "\<forall>(i, item) \<in> set (m_inventoryItems s).
               map_of (m_inventoryItems s) i = Some item"
    using assms by (auto intro: map_of_is_SomeI)
  note f = fold_reset_entry_items [OF assms all, of k]
  have none: "map_of (m_inventoryItems s) k = None" if "k \<notin> fst ` set (m_inventoryItems s)"
    using that by (simp add: map_of_eq_None_iff)
  show "map_of (m_inventoryItems (mem_resetInventory today s)) k =
           map_option (reseed (m_currencies s)) (map_of (m_inventoryItems s) k)"
    using f none
    by (auto simp: mem_resetInventory_fold mem_createOrUpdateDailyStats_frame)
  show "map fst (m_inventoryItems (mem_resetInventory today s)) = map fst (m_inventoryItems s)"
    using f by (simp add: mem_resetInventory_fold mem_createOrUpdateDailyStats_frame)
  show "m_currencies (mem_resetInventory today s) = m_currencies s"
    by (simp add: mem_resetInventory_fold mem_createOrUpdateDailyStats_frame
        fold_reset_entry_frame)
qed

lemma mem_resetInventory_entries:
  assumes d: "distinct (map fst (m_inventoryItems s))"
    and e: "(k, item) \<in> set (m_inventoryItems (mem_resetInventory today s))"
  shows "\<exists>v. item = reseed (m_currencies s) v"
proof -
  from d have "distinct (map fst (m_inventoryItems (mem_resetInventory today s)))"
    by (simp add: mem_resetInventory_items(2) [OF d])
  from this e have "map_of (m_inventoryItems (mem_resetInventory today s)) k = Some item"
    by (rule map_of_is_SomeI)
  then show ?thesis
    by (auto simp: mem_resetInventory_items(1) [OF d])
qed

text \<open>
  The in-memory backend does what C8 says, on a store whose inventory map has one entry
  per key (as a \<open>Map\<close> has): after \<open>resetInventory\<close> the position found for a currency
  holds amount 0 at the currency's current rate, no transaction remains, today's stat is
  0 / 0, and a second reset changes nothing.
\<close>

lemma mem_resetInventory_reseeds:
  assumes d: "distinct (map fst (m_inventoryItems s))"
  shows "mem_getCurrency (mem_resetInventory today s) cid = Some c \<and>
         mem_getInventoryByCurrencyId (mem_resetInventory today s) cid = Some item
           \<longrightarrow> amount item = 0 \<and> avgBuyPrice item = currentRate c"
    and "m_transactionsList (mem_resetInventory today s) = []"
    and "\<exists>st. mem_getDailyStats (mem_resetInventory today s) today = Some st \<and>
              profit st = 0 \<and> transactionCount st = 0"
    and "mem_resetInventory today (mem_resetInventory today s) = mem_resetInventory today s"
proof -
  let ?s' = "mem_resetInventory today s"
  let ?z = "\<lparr>date = today, profit = 0, transactionCount = 0\<rparr>"
  show one: "mem_getCurrency ?s' cid = Some c \<and>
         mem_getInventoryByCurrencyId ?s' cid = Some item
           \<longrightarrow> amount item = 0 \<and> avgBuyPrice item = currentRate c"
  proof
    assume a: "mem_getCurrency ?s' cid = Some c \<and>
               mem_getInventoryByCurrencyId ?s' cid = Some item"
    then have c: "map_of (m_currencies s) cid = Some c"
      by (simp add: mem_getCurrency_def mem_resetInventory_items(3) [OF d])
    from a have "item \<in> set (map snd (m_inventoryItems ?s'))" and cid: "currencyId item = cid"
      using find_Some_mem [of "\<lambda>item. currencyId item = cid" "map snd (m_inventoryItems ?s')" item]
      by (simp_all add: mem_getInventoryByCurrencyId_def)
    then obtain k where "(k, item) \<in> set (m_inventoryItems ?s')"
      by auto
    from mem_resetInventory_entries [OF d this]
    obtain v where v: "item = reseed (m_currencies s) v" ..
    with cid have "currencyId v = cid" by (simp add: reseed_again)
    with c v show "amount item = 0 \<and> avgBuyPrice item = currentRate c"
      by (simp add: reseed_def)
  qed
  show txs: "m_transactionsList ?s' = []"
    by (simp add: mem_resetInventory_fold mem_createOrUpdateDailyStats_frame)
  have txid: "transactionCurrentId ?s' = 1"
    by (simp add: mem_resetInventory_fold mem_createOrUpdateDailyStats_frame)
  from mem_getDailyStats_upsert_same [of ?z]
  show today: "\<exists>st. mem_getDailyStats ?s' today = Some st \<and>
              profit st = 0 \<and> transactionCount st = 0"
    by (simp add: mem_resetInventory_fold)
  show "mem_resetInventory today ?s' = ?s'"
  proof -
    have "\<forall>(i, item) \<in> set (m_inventoryItems ?s').
             map_of (m_inventoryItems ?s') i = Some item \<and>
             reseed (m_currencies ?s') item = item"
    proof (clarify)
      fix i item assume e: "(i, item) \<in> set (m_inventoryItems ?s')"
      from d have "distinct (map fst (m_inventoryItems ?s'))"
        by (simp add: mem_resetInventory_items(2) [OF d])
      from this e have "map_of (m_inventoryItems ?s') i = Some item"
        by (rule map_of_is_SomeI)
      moreover from mem_resetInventory_entries [OF d e]
      have "reseed (m_currencies ?s') item = item"
        by (auto simp: mem_resetInventory_items(3) [OF d] reseed_again)
      ultimately show "map_of (m_inventoryItems ?s') i = Some item \<and>
             reseed (m_currencies ?s') item = item" ..
    qed
    then have "fold reset_entry (m_inventoryItems ?s') ?s' = ?s'"
      by (rule fold_reset_entry_fixed)
    moreover have "?s'\<lparr>m_transactionsList := [], transactionCurrentId := 1\<rparr> = ?s'"
    proof -
      have "?s'\<lparr>m_transactionsList := m_transactionsList ?s',
                transactionCurrentId := transactionCurrentId ?s'\<rparr> = ?s'"
        by simp
      then show ?thesis by (simp only: txs txid)
    qed
    moreover from today obtain st where
      "map_of (m_stats ?s') (date ?z) = Some st" "profit st = profit ?z"
      "transactionCount st = transactionCount ?z"
      by (auto simp: mem_getDailyStats_def)
    then have "snd (mem_createOrUpdateDailyStats ?z ?s') = ?s'"
      by (rule mem_createOrUpdateDailyStats_again)
    ultimately show ?thesis
      by (simp add: mem_resetInventory_fold [of today ?s'])
  qed
qed

end
